theory Spec2Isabelle
  imports Complex_Main "HOL-Library.Sublist"
begin

section \<open>Python strings and numbers used by the risk scorer\<close>

text \<open>
  A Python \<open>str\<close> is modelled as a \<open>string\<close>: a list of 8-bit characters, read as the
  code points 0..255 (ASCII and Latin-1). Texts with other code points are outside the
  model. On the modelled range \<open>str.lower\<close> maps one character to one character; beyond
  it Python's \<open>str.lower\<close> can lengthen a text, so the statements below speak of the
  length of the lower-cased text wherever the code measures that one. Python integers
  are \<open>int\<close>.
\<close>

text \<open>
  The errors the modelled code can raise: a division by zero, and a method call on a
  value that has no such method (\<open>None.lower()\<close>, \<open>None.split('.')\<close>).
\<close>

datatype py_error = ZeroDivisionError | AttributeError

text \<open>The values a caller may pass where a risk text is expected.\<close>

datatype pyval = PyStr string | PyNone | PyInt int | PyBool bool

fun truthy :: "pyval \<Rightarrow> bool" where
  "truthy (PyStr s) = (s \<noteq> [])"
| "truthy PyNone = False"
| "truthy (PyInt i) = (i \<noteq> 0)"
| "truthy (PyBool b) = b"

fun isinstance_str :: "pyval \<Rightarrow> bool" where
  "isinstance_str (PyStr s) = True"
| "isinstance_str PyNone = False"
| "isinstance_str (PyInt i) = False"
| "isinstance_str (PyBool b) = False"

subsection \<open>\<open>str.lower\<close>, \<open>str.strip\<close>, \<open>str.split\<close>, \<open>in\<close>, \<open>str.count\<close>\<close>

definition lower_char :: "char \<Rightarrow> char" where
  "lower_char c =
     (let n = (of_char c :: nat)
      in if (65 \<le> n \<and> n \<le> 90) \<or> (192 \<le> n \<and> n \<le> 222 \<and> n \<noteq> 215)
         then char_of (n + 32) else c)"

definition lower :: "string \<Rightarrow> string" where
  "lower s = map lower_char s"

text \<open>Python's whitespace among the code points 0..255: 9-13, 28-32, 133 and 160.\<close>

definition isspace :: "char \<Rightarrow> bool" where
  "isspace c =
     (let n = (of_char c :: nat)
      in (9 \<le> n \<and> n \<le> 13) \<or> (28 \<le> n \<and> n \<le> 32) \<or> n = 133 \<or> n = 160)"

definition strip :: "string \<Rightarrow> string" where
  "strip s = rev (dropWhile isspace (rev (dropWhile isspace s)))"

text \<open>
  Cutting a string at every character that satisfies \<open>sep\<close>. The result has one piece
  more than there are separators, so it is never empty: splitting the empty string gives one empty piece.
\<close>

fun split_at :: "(char \<Rightarrow> bool) \<Rightarrow> string \<Rightarrow> string list" where
  "split_at sep [] = [[]]"
| "split_at sep (c # cs) =
     (if sep c then [] # split_at sep cs
      else (case split_at sep cs of
              [] \<Rightarrow> [[c]]
            | p # ps \<Rightarrow> (c # p) # ps))"

definition split_dot :: "string \<Rightarrow> string list" where
  "split_dot s = split_at (\<lambda>c. c = CHR ''.'') s"

text \<open>\<open>s.split()\<close> without a separator: the maximal runs of non-whitespace characters.\<close>

definition split_ws :: "string \<Rightarrow> string list" where
  "split_ws s = filter (\<lambda>w. w \<noteq> []) (split_at isspace s)"

text \<open>\<open>w in s\<close> on strings: \<open>w\<close> occurs in \<open>s\<close> as a contiguous run.\<close>

fun py_in :: "string \<Rightarrow> string \<Rightarrow> bool" where
  "py_in w [] = (w = [])"
| "py_in w (c # cs) = (prefix w (c # cs) \<or> py_in w cs)"

text \<open>\<open>any(word in s for word in kws)\<close>.\<close>

definition any_in :: "string list \<Rightarrow> string \<Rightarrow> bool" where
  "any_in kws s = list_ex (\<lambda>word. py_in word s) kws"

text \<open>
  \<open>s.count(w)\<close>: the occurrences of \<open>w\<close> found from left to right without overlap.
  After a match the scan resumes behind it: \<open>skip\<close> is the number of characters of the
  last match still to pass over.
\<close>

fun count_from :: "string \<Rightarrow> nat \<Rightarrow> string \<Rightarrow> int" where
  "count_from w skip [] = (if w = [] \<and> skip = 0 then 1 else 0)"
| "count_from w skip (c # cs) =
     (if 0 < skip then count_from w (skip - 1) cs
      else if prefix w (c # cs) then 1 + count_from w (length w - 1) cs
      else count_from w 0 cs)"

definition py_count :: "string \<Rightarrow> string \<Rightarrow> int" where
  "py_count s w = count_from w 0 s"

subsection \<open>Float arithmetic: true division, multiplication, \<open>round\<close>\<close>

text \<open>
  \<open>round(x)\<close> on a float returns the nearest integer, a tie going to the even one.
\<close>

definition py_round :: "rat \<Rightarrow> int" where
  "py_round x =
     (let f = \<lfloor>x\<rfloor>; d = x - of_int f
      in if d < 1 / 2 then f
         else if 1 / 2 < d then f + 1
         else if even f then f else f + 1)"

text \<open>\<open>int.bit_length\<close>: the number of binary digits of a positive integer.\<close>

function bit_length :: "int \<Rightarrow> nat" where
  "bit_length n = (if n \<le> 0 then 0 else Suc (bit_length (n div 2)))"
  by pat_completeness auto
termination
  by (relation "measure nat") auto

definition scale2 :: "rat \<Rightarrow> int \<Rightarrow> rat" where
  "scale2 x k = (if 0 \<le> k then x * 2 ^ nat k else x / 2 ^ nat (- k))"

text \<open>
  \<open>floor_log2 x\<close> is the exponent \<open>e\<close> with \<open>2^e \<le> x < 2^(e+1)\<close>, for \<open>x > 0\<close>.
\<close>

definition floor_log2 :: "rat \<Rightarrow> int" where
  "floor_log2 x =
     (let (p, q) = quotient_of x;
          k = int (bit_length p) - int (bit_length q)
      in if scale2 1 k \<le> x then k else k - 1)"

text \<open>
  The float nearest to a rational: a binary64 number has a 53-bit significand, and the
  result of an arithmetic operation is the exact result rounded to the nearest such
  number, a tie going to the even significand. Exponent overflow and subnormal numbers
  are left out: every quotient and product of the scorer lies between 1/3 and 100.
\<close>

definition float_round :: "rat \<Rightarrow> rat" where
  "float_round x =
     (if x = 0 then 0
      else if x < 0 then - scale2 (of_int (py_round (scale2 (- x) (52 - floor_log2 (- x))))) (floor_log2 (- x) - 52)
      else scale2 (of_int (py_round (scale2 x (52 - floor_log2 x)))) (floor_log2 x - 52))"

text \<open>\<open>a / b\<close> on integers is the correctly rounded quotient, or raises.\<close>

definition truediv :: "int \<Rightarrow> int \<Rightarrow> py_error + rat" where
  "truediv a b = (if b = 0 then Inl ZeroDivisionError else Inr (float_round (of_int a / of_int b)))"

text \<open>\<open>x * k\<close> for a float \<open>x\<close> and an integer \<open>k\<close>.\<close>

definition fmul :: "rat \<Rightarrow> int \<Rightarrow> rat" where
  "fmul x k = float_round (x * of_int k)"

section \<open>The scoring and classification functions\<close>

subsection \<open>\<open>calculate_risk_score\<close> (app.py)\<close>

definition calculate_risk_score :: "pyval \<Rightarrow> py_error + (int \<times> int \<times> int \<times> int)" where
  "calculate_risk_score risks_text =
     (if \<not> truthy risks_text \<or> \<not> isinstance_str risks_text then Inr (0, 0, 0, 0)
      else (case risks_text of
        PyStr text \<Rightarrow>
          (let text_lower = lower text;
               max_text_length = min (length text_lower) 10000;
               text_sample = take max_text_length text_lower;
               high_count = sum_list (map (py_count text_sample) [''critical'', ''severe'', ''high'']);
               medium_count = sum_list (map (py_count text_sample) [''moderate'', ''medium'']);
               low_count = int (length (split_dot text_sample)) - high_count - medium_count;
               low_count = max 0 low_count;
               total = high_count + medium_count + low_count
           in if total = 0 then Inr (0, 0, 0, 0)
              else (case truediv (high_count * 3 + medium_count * 2 + low_count) (max total 1) of
                      Inl e \<Rightarrow> Inl e
                    | Inr q \<Rightarrow> Inr (min 100 (py_round (fmul q 20)), high_count, medium_count, low_count)))
      | _ \<Rightarrow> Inr (0, 0, 0, 0)))"

subsection \<open>\<open>calculate_risk_counts\<close> and \<open>categorize_risks\<close> (email_service.py)\<close>

text \<open>\<open>[s.strip() for s in text.split('.') if s.strip()]\<close>\<close>

definition sentences_of :: "string \<Rightarrow> string list" where
  "sentences_of text = map strip (filter (\<lambda>s. strip s \<noteq> []) (split_dot text))"

text \<open>\<open>sum(1 for s in sentences if cond(s))\<close>\<close>

definition count_if :: "(string \<Rightarrow> bool) \<Rightarrow> string list \<Rightarrow> int" where
  "count_if cond sentences = sum_list (map (\<lambda>s. 1) (filter cond sentences))"

text \<open>
  \<open>calculate_risk_counts\<close> has no guard: its first statement calls \<open>risks_text.lower()\<close>,
  which raises on a value that is not a string.
\<close>

definition calculate_risk_counts :: "pyval \<Rightarrow> py_error + (int \<times> int \<times> int \<times> int)" where
  "calculate_risk_counts risks_text =
     (case risks_text of
        PyStr text \<Rightarrow>
          (let text_lower = lower text;
               sentences = sentences_of text_lower;
               high_count = count_if (any_in [''critical'', ''severe'', ''high risk'', ''significant'', ''major'']) sentences;
               medium_count = count_if (any_in [''moderate'', ''medium'', ''potential'', ''concerning'']) sentences;
               low_count = count_if (\<lambda>s. 5 < length (split_ws s) \<and>
                             \<not> any_in [''critical'', ''severe'', ''high risk'', ''moderate'', ''medium'', ''potential''] s) sentences;
               total = high_count + medium_count + low_count
           in if total = 0 then Inr (0, 0, 0, 0)
              else (case truediv (high_count * 3 + medium_count * 2 + low_count) (total * 3) of
                      Inl e \<Rightarrow> Inl e
                    | Inr q \<Rightarrow> Inr (min 100 (py_round (fmul q 100)), high_count, medium_count, low_count)))
      | _ \<Rightarrow> Inl AttributeError)"

text \<open>The loop of \<open>categorize_risks\<close>, with the three lists it appends to.\<close>

fun categorize_loop ::
  "string list \<Rightarrow> string list \<times> string list \<times> string list \<Rightarrow> string list \<times> string list \<times> string list" where
  "categorize_loop [] acc = acc"
| "categorize_loop (sentence # rest) (high_risks, medium_risks, low_risks) =
     (let sentence_lower = lower sentence
      in if any_in [''critical'', ''severe'', ''high''] sentence_lower
           then categorize_loop rest (high_risks @ [sentence], medium_risks, low_risks)
         else if any_in [''moderate'', ''medium''] sentence_lower
           then categorize_loop rest (high_risks, medium_risks @ [sentence], low_risks)
         else if 5 < length (split_ws sentence)
           then categorize_loop rest (high_risks, medium_risks, low_risks @ [sentence])
         else categorize_loop rest (high_risks, medium_risks, low_risks))"

text \<open>
  \<open>categorize_risks\<close> has no guard either: \<open>risks_text.split('.')\<close> raises on a value
  that is not a string.
\<close>

definition categorize_risks :: "pyval \<Rightarrow> py_error + (string list \<times> string list \<times> string list)" where
  "categorize_risks risks_text =
     (case risks_text of
        PyStr text \<Rightarrow> Inr (categorize_loop (sentences_of text) ([], [], []))
      | _ \<Rightarrow> Inl AttributeError)"

subsection \<open>The classification of \<open>display_risks_with_filters\<close> (app.py)\<close>

definition high_risk_keywords :: "string list" where
  "high_risk_keywords = [''critical'', ''severe'', ''high risk'', ''significant'', ''major'', ''serious'']"

definition medium_risk_keywords :: "string list" where
  "medium_risk_keywords = [''moderate'', ''medium'', ''potential'', ''possible'', ''concerning'']"

fun display_loop ::
  "string list \<Rightarrow> string list \<times> string list \<times> string list \<Rightarrow> string list \<times> string list \<times> string list" where
  "display_loop [] acc = acc"
| "display_loop (sentence # rest) (high_risks, medium_risks, low_risks) =
     (let sentence_lower = lower sentence
      in if any_in high_risk_keywords sentence_lower
           then display_loop rest (high_risks @ [sentence], medium_risks, low_risks)
         else if any_in medium_risk_keywords sentence_lower
           then display_loop rest (high_risks, medium_risks @ [sentence], low_risks)
         else if 5 < length (split_ws sentence)
           then display_loop rest (high_risks, medium_risks, low_risks @ [sentence])
         else display_loop rest (high_risks, medium_risks, low_risks))"

text \<open>
  The three lists \<open>display_risks_with_filters\<close> builds before it shows them; both early
  returns show no finding.
\<close>

definition display_risks_with_filters :: "pyval \<Rightarrow> string list \<times> string list \<times> string list" where
  "display_risks_with_filters risks_text =
     (if \<not> truthy risks_text \<or> \<not> isinstance_str risks_text then ([], [], [])
      else (case risks_text of
        PyStr text \<Rightarrow>
          (let sentences = sentences_of text
           in if sentences = [] then ([], [], [])
              else display_loop sentences ([], [], []))
      | _ \<Rightarrow> ([], [], [])))"

subsection \<open>The two risk sections of \<open>prepare_email_content\<close> (email_service.py)\<close>

text \<open>
  \<open>prepare_email_content\<close> reads the risk text from the session state and appends, for
  the score and for the risk analysis, either nothing (the box is not ticked, or the
  session holds no risks), a fixed sentence (the risks are not a string), or the lines
  that print the values computed from the text. The model keeps those values; the
  summary section and the layout of the lines are left out.
\<close>

datatype 'a part = Omitted | NotText | Printed 'a

definition prepare_email_content ::
  "bool \<Rightarrow> bool \<Rightarrow> pyval \<Rightarrow>
     py_error + ((int \<times> int \<times> int \<times> int) part \<times> (string list \<times> string list \<times> string list) part)" where
  "prepare_email_content include_risk_score include_risks risks =
     (case (if include_risk_score \<and> truthy risks
            then (if isinstance_str risks
                  then (case calculate_risk_counts risks of
                          Inl e \<Rightarrow> Inl e
                        | Inr counts \<Rightarrow> Inr (Printed counts))
                  else Inr NotText)
            else Inr Omitted) of
        Inl e \<Rightarrow> Inl e
      | Inr score_part \<Rightarrow>
          (case (if include_risks \<and> truthy risks
                 then (if isinstance_str risks
                       then (case categorize_risks risks of
                               Inl e \<Rightarrow> Inl e
                             | Inr findings \<Rightarrow> Inr (Printed findings))
                       else Inr NotText)
                 else Inr Omitted) of
             Inl e \<Rightarrow> Inl e
           | Inr findings_part \<Rightarrow> Inr (score_part, findings_part)))"

subsection \<open>\<open>validate_email\<close> and the send button (email_service.py)\<close>

definition validate_email :: "string \<Rightarrow> bool" where
  "validate_email email =
     (if email = [] then False
      else if \<not> py_in ''@'' email \<or> \<not> py_in ''.'' email then False
      else True)"

datatype send_outcome = InvalidAddress | NothingSelected | SendAttempted

definition send_button :: "string \<Rightarrow> bool \<Rightarrow> bool \<Rightarrow> bool \<Rightarrow> send_outcome" where
  "send_button recipient include_summary include_risk_score include_risks =
     (if \<not> validate_email recipient then InvalidAddress
      else if \<not> (include_summary \<or> include_risk_score \<or> include_risks) then NothingSelected
      else SendAttempted)"

section \<open>Notions used in the statements\<close>

text \<open>The three tests of the \<open>if\<close>/\<open>elif\<close> chain of \<open>categorize_risks\<close>, on one clause.\<close>

definition cat_high :: "string \<Rightarrow> bool" where
  "cat_high sentence = any_in [''critical'', ''severe'', ''high''] (lower sentence)"

definition cat_medium :: "string \<Rightarrow> bool" where
  "cat_medium sentence = any_in [''moderate'', ''medium''] (lower sentence)"

definition substantial :: "string \<Rightarrow> bool" where
  "substantial sentence = (5 < length (split_ws sentence))"

text \<open>The keyword tests of \<open>display_risks_with_filters\<close>.\<close>

definition disp_high :: "string \<Rightarrow> bool" where
  "disp_high sentence = any_in high_risk_keywords (lower sentence)"

definition disp_medium :: "string \<Rightarrow> bool" where
  "disp_medium sentence = any_in medium_risk_keywords (lower sentence)"

text \<open>
  The keyword sets in the specification's words: HIGH if the clause contains any of
  \<open>critical, severe, high risk, significant, major, serious, high\<close>, else MEDIUM if it
  contains any of \<open>moderate, medium, potential, possible, concerning\<close>.
\<close>

definition spec_high_keywords :: "string list" where
  "spec_high_keywords =
     [''critical'', ''severe'', ''high risk'', ''significant'', ''major'', ''serious'', ''high'']"

definition spec_medium_keywords :: "string list" where
  "spec_medium_keywords = [''moderate'', ''medium'', ''potential'', ''possible'', ''concerning'']"

text \<open>
  The score formula in the specification's words:
  \<open>min(100, round((high*3 + medium*2 + low*1) / total * 20))\<close>, and 0 when \<open>total\<close> is 0.
\<close>

definition spec_score :: "int \<Rightarrow> int \<Rightarrow> int \<Rightarrow> py_error + int" where
  "spec_score high medium low =
     (let total = high + medium + low
      in if total = 0 then Inr 0
         else (case truediv (high * 3 + medium * 2 + low * 1) total of
                 Inl e \<Rightarrow> Inl e
               | Inr q \<Rightarrow> Inr (min 100 (py_round (fmul q 20)))))"

text \<open>
  The formula of \<open>calculate_risk_counts\<close>:
  \<open>min(100, round((high*3 + medium*2 + low) / (total*3) * 100))\<close>, and 0 when \<open>total\<close> is 0.
\<close>

definition email_score :: "int \<Rightarrow> int \<Rightarrow> int \<Rightarrow> py_error + int" where
  "email_score high medium low =
     (let total = high + medium + low
      in if total = 0 then Inr 0
         else (case truediv (high * 3 + medium * 2 + low) (total * 3) of
                 Inl e \<Rightarrow> Inl e
               | Inr q \<Rightarrow> Inr (min 100 (py_round (fmul q 100)))))"

text \<open>The risk text of the specification's worked example.\<close>

definition example_text :: string where
  "example_text =
     ''The vendor shall indemnify against all critical liabilities. There is a moderate compliance gap noted here today.''"

text \<open>The numbers of findings under the three headings.\<close>

definition finding_counts :: "string list \<times> string list \<times> string list \<Rightarrow> int \<times> int \<times> int" where
  "finding_counts fs =
     (case fs of (high_risks, medium_risks, low_risks) \<Rightarrow>
        (int (length high_risks), int (length medium_risks), int (length low_risks)))"

text \<open>
  A clause on which the keyword lists of \<open>calculate_risk_counts\<close> and of
  \<open>categorize_risks\<close> cannot disagree: it has none of the keywords that only one of them
  knows, and not both a high and a medium keyword.
\<close>

definition unambiguous :: "string \<Rightarrow> bool" where
  "unambiguous sentence =
     (let s = lower sentence
      in \<not> any_in [''high'', ''significant'', ''major'', ''potential'', ''concerning''] s
         \<and> \<not> (any_in [''critical'', ''severe''] s \<and> any_in [''moderate'', ''medium''] s))"

section \<open>The operations on examples\<close>

text \<open>Each value below is the one Python gives for the same expression.\<close>

lemma lower_example: "lower ''High RISK, Major.'' = ''high risk, major.''"
  by code_simp

lemma strip_example: "strip ''  a b  '' = ''a b'' \<and> strip ''   '' = []"
  by code_simp

lemma split_dot_example: "split_dot ''a. b.'' = [''a'', '' b'', []] \<and> split_dot [] = [[]]"
  by code_simp

lemma split_ws_example: "split_ws ''  one  two three '' = [''one'', ''two'', ''three''] \<and> split_ws '' '' = []"
  by code_simp

lemma py_in_example: "py_in ''high'' ''a higher risk'' \<and> \<not> py_in ''high risk'' ''a higher risk''"
  by code_simp

lemma py_count_example: "py_count ''aaaa'' ''aa'' = 2 \<and> py_count ''high, higher'' ''high'' = 2"
  by code_simp

lemma py_round_example: "py_round (5 / 2) = 2 \<and> py_round (7 / 2) = 4 \<and> py_round (250 / 3) = 83"
  by code_simp

lemma float_round_example:
  "float_round (5 / 6) = 7505999378950827 / 9007199254740992
   \<and> fmul (float_round (5 / 6)) 100 = 2932031007402667 / 35184372088832
   \<and> fmul (float_round (41 / 40)) 20 = 41 / 2"
  by code_simp

section \<open>Properties of the string operations\<close>

lemma of_char_lower_char:
  "of_char (lower_char c) =
     (let n = (of_char c :: nat)
      in if (65 \<le> n \<and> n \<le> 90) \<or> (192 \<le> n \<and> n \<le> 222 \<and> n \<noteq> 215) then n + 32 else n)"
  by (simp add: lower_char_def Let_def)

lemma isspace_lower_char [simp]: "isspace (lower_char c) = isspace c"
  unfolding isspace_def of_char_lower_char by (simp add: Let_def)

lemma lower_char_eq_dot [simp]: "(lower_char c = CHR ''.'') = (c = CHR ''.'')"
proof -
  have "(lower_char c = CHR ''.'') = ((of_char (lower_char c) :: nat) = of_char (CHR ''.''))"
    by (simp only: of_char_eq_iff)
  also have "\<dots> = ((of_char c :: nat) = of_char (CHR ''.''))"
    unfolding of_char_lower_char by (auto simp add: Let_def)
  also have "\<dots> = (c = CHR ''.'')"
    by (simp only: of_char_eq_iff)
  finally show ?thesis .
qed

lemma lower_eq_Nil [simp]: "(lower s = []) = (s = [])"
  by (simp add: lower_def)

lemma lower_append: "lower (s @ t) = lower s @ lower t"
  by (simp add: lower_def)

lemma split_at_not_Nil [simp]: "split_at sep s \<noteq> []"
  by (induction s) (auto split: list.splits)

lemma split_at_map:
  assumes "\<And>c. sep (f c) = sep c"
  shows "split_at sep (map f s) = map (map f) (split_at sep s)"
  using assms by (induction s) (auto split: list.splits)

lemma split_at_append_sep:
  "sep c \<Longrightarrow> split_at sep (xs @ c # ys) = split_at sep xs @ split_at sep ys"
  by (induction xs) (auto split: list.splits)

lemma dropWhile_map_lower:
  "dropWhile isspace (map lower_char s) = map lower_char (dropWhile isspace s)"
  by (induction s) auto

lemma strip_lower: "strip (lower s) = lower (strip s)"
  by (simp add: strip_def lower_def dropWhile_map_lower rev_map)

lemma split_dot_lower: "split_dot (lower s) = map lower (split_dot s)"
  unfolding split_dot_def lower_def by (rule split_at_map) simp

lemma sentences_of_lower: "sentences_of (lower text) = map lower (sentences_of text)"
  by (simp add: sentences_of_def split_dot_lower filter_map o_def strip_lower)

lemma split_ws_lower: "split_ws (lower s) = map lower (split_ws s)"
proof -
  have "split_at isspace (map lower_char s) = map (map lower_char) (split_at isspace s)"
    by (rule split_at_map) simp
  then show ?thesis
    by (simp add: split_ws_def lower_def filter_map o_def)
qed

lemma py_in_sublist: "py_in w s = sublist w s"
  by (induction s) (auto simp: sublist_Cons_right)

lemma py_in_single [simp]: "py_in [c] s = (c \<in> set s)"
  by (induction s) auto

lemma count_from_nonneg: "0 \<le> count_from w k s"
  by (induction w k s rule: count_from.induct) auto

lemma count_if_length: "count_if cond ss = int (length (filter cond ss))"
  unfolding count_if_def by (induction ss) auto

section \<open>Properties of the arithmetic and of the two scoring functions\<close>

lemma py_round_nonneg: "0 \<le> x \<Longrightarrow> 0 \<le> py_round x"
  by (simp add: py_round_def Let_def)

lemma scale2_nonneg: "0 \<le> x \<Longrightarrow> 0 \<le> scale2 x k"
  by (simp add: scale2_def)

lemma float_round_nonneg: "0 \<le> x \<Longrightarrow> 0 \<le> float_round x"
  by (simp add: float_round_def scale2_nonneg py_round_nonneg)

lemma fmul_nonneg: "0 \<le> x \<Longrightarrow> 0 \<le> k \<Longrightarrow> 0 \<le> fmul x k"
  by (simp add: fmul_def float_round_nonneg)

lemma py_count_nonneg: "0 \<le> py_count s w"
  by (simp add: py_count_def count_from_nonneg)

lemma count_if_nonneg: "0 \<le> count_if cond ss"
  by (simp add: count_if_length)

lemma length_split_dot_pos: "1 \<le> int (length (split_dot s))"
  by (cases "split_at (\<lambda>c. c = CHR ''.'') s") (simp_all add: split_dot_def)

lemma take_min_length: "take (min (length s) n) s = take n s"
  by (simp add: min_def)

text \<open>The body of \<open>calculate_risk_score\<close> on a non-empty string, with its counts named.\<close>

lemma calculate_risk_score_unfold:
  assumes "t \<noteq> []"
    and "sample = take 10000 (lower t)"
    and "h = sum_list (map (py_count sample) [''critical'', ''severe'', ''high''])"
    and "m = sum_list (map (py_count sample) [''moderate'', ''medium''])"
    and "l = max 0 (int (length (split_dot sample)) - h - m)"
  shows "calculate_risk_score (PyStr t) =
     (if h + m + l = 0 then Inr (0, 0, 0, 0)
      else (case truediv (h * 3 + m * 2 + l) (max (h + m + l) 1) of
              Inl e \<Rightarrow> Inl e
            | Inr q \<Rightarrow> Inr (min 100 (py_round (fmul q 20)), h, m, l)))"
  unfolding calculate_risk_score_def Let_def take_min_length assms(2-5)
  using assms(1) by (simp only: truthy.simps isinstance_str.simps pyval.case simp_thms if_False)

lemma calculate_risk_score_guard:
  "\<not> truthy v \<or> \<not> isinstance_str v \<Longrightarrow> calculate_risk_score v = Inr (0, 0, 0, 0)"
  by (simp only: calculate_risk_score_def if_True)

lemma calculate_risk_counts_unfold:
  assumes "ss = sentences_of (lower text)"
    and "h = count_if (any_in [''critical'', ''severe'', ''high risk'', ''significant'', ''major'']) ss"
    and "m = count_if (any_in [''moderate'', ''medium'', ''potential'', ''concerning'']) ss"
    and "l = count_if (\<lambda>s. 5 < length (split_ws s) \<and>
              \<not> any_in [''critical'', ''severe'', ''high risk'', ''moderate'', ''medium'', ''potential''] s) ss"
  shows "calculate_risk_counts (PyStr text) =
     (if h + m + l = 0 then Inr (0, 0, 0, 0)
      else (case truediv (h * 3 + m * 2 + l) ((h + m + l) * 3) of
              Inl e \<Rightarrow> Inl e
            | Inr q \<Rightarrow> Inr (min 100 (py_round (fmul q 100)), h, m, l)))"
  unfolding calculate_risk_counts_def Let_def assms
  by (simp only: pyval.case)



text \<open>The score of given counts, as both functions finish.\<close>

lemma score_tail:
  assumes "0 \<le> n" "0 < d" "0 \<le> k"
  shows "\<exists>q. truediv n d = Inr q \<and> 0 \<le> min 100 (py_round (fmul q k)) \<and> min 100 (py_round (fmul q k)) \<le> 100"
proof -
  have q: "truediv n d = Inr (float_round (of_int n / of_int d))"
    using assms by (simp add: truediv_def)
  have "0 \<le> float_round (of_int n / of_int d)"
    using assms by (intro float_round_nonneg) simp
  then have "0 \<le> py_round (fmul (float_round (of_int n / of_int d)) k)"
    using assms by (intro py_round_nonneg fmul_nonneg) 
  with q show ?thesis by simp
qed


section \<open>The two classification loops as filters\<close>

lemma categorize_loop_filter:
  "categorize_loop ss (h, m, l) =
     (h @ filter cat_high ss,
      m @ filter (\<lambda>s. \<not> cat_high s \<and> cat_medium s) ss,
      l @ filter (\<lambda>s. \<not> cat_high s \<and> \<not> cat_medium s \<and> substantial s) ss)"
  by (induction ss arbitrary: h m l) (simp_all add: Let_def cat_high_def cat_medium_def substantial_def)

lemma categorize_risks_filter:
  "categorize_risks (PyStr text) =
     Inr (filter cat_high (sentences_of text),
          filter (\<lambda>s. \<not> cat_high s \<and> cat_medium s) (sentences_of text),
          filter (\<lambda>s. \<not> cat_high s \<and> \<not> cat_medium s \<and> substantial s) (sentences_of text))"
  by (simp add: categorize_risks_def categorize_loop_filter)

lemma display_loop_filter:
  "display_loop ss (h, m, l) =
     (h @ filter disp_high ss,
      m @ filter (\<lambda>s. \<not> disp_high s \<and> disp_medium s) ss,
      l @ filter (\<lambda>s. \<not> disp_high s \<and> \<not> disp_medium s \<and> substantial s) ss)"
  by (induction ss arbitrary: h m l) (simp_all add: Let_def disp_high_def disp_medium_def substantial_def)

lemma sentences_of_Nil [simp]: "sentences_of [] = []"
  by (simp add: sentences_of_def split_dot_def strip_def)

lemma display_risks_with_filters_filter:
  "display_risks_with_filters (PyStr text) =
     (filter disp_high (sentences_of text),
      filter (\<lambda>s. \<not> disp_high s \<and> disp_medium s) (sentences_of text),
      filter (\<lambda>s. \<not> disp_high s \<and> \<not> disp_medium s \<and> substantial s) (sentences_of text))"
  by (cases "text = []") (auto simp add: display_risks_with_filters_def display_loop_filter Let_def)

lemma count_list_filter:
  "count_list (filter P xs) x = (if P x then count_list xs x else 0)"
  by (induction xs) auto

section \<open>Empty input, truncation and appended clauses\<close>


lemma categorize_risks_Nil: "categorize_risks (PyStr []) = Inr ([], [], [])"
  by (simp add: categorize_risks_def)


lemma calculate_risk_score_sample:
  assumes "t \<noteq> []" and "u \<noteq> []" and "take 10000 (lower t) = take 10000 (lower u)"
  shows "calculate_risk_score (PyStr t) = calculate_risk_score (PyStr u)"
proof -
  define sample where "sample = take 10000 (lower t)"
  define h where "h = sum_list (map (py_count sample) [''critical'', ''severe'', ''high''])"
  define m where "m = sum_list (map (py_count sample) [''moderate'', ''medium''])"
  define l where "l = max 0 (int (length (split_dot sample)) - h - m)"
  have sample_u: "sample = take 10000 (lower u)"
    using assms(3) by (simp only: sample_def)
  show ?thesis
    by (simp only: calculate_risk_score_unfold [OF assms(1) sample_def h_def m_def l_def]
                   calculate_risk_score_unfold [OF assms(2) sample_u h_def m_def l_def])
qed

lemma sentences_of_append_dot:
  "sentences_of (a @ ''.'' @ b) = sentences_of a @ sentences_of b"
proof -
  have "split_dot (a @ CHR ''.'' # b) = split_dot a @ split_dot b"
    unfolding split_dot_def by (rule split_at_append_sep) simp
  then show ?thesis
    by (simp add: sentences_of_def)
qed

section \<open>Totals of the counts and of the findings\<close>

lemma app_total:
  fixes n h m l :: int
  assumes "l = max 0 (n - h - m)"
  shows "h + m + l = max n (h + m)"
  using assms by simp

lemma length_three_filters:
  "length (filter P xs) + length (filter (\<lambda>x. \<not> P x \<and> Q x) xs)
     + length (filter (\<lambda>x. \<not> P x \<and> \<not> Q x \<and> R x) xs)
   = length (filter (\<lambda>x. P x \<or> Q x \<or> R x) xs)"
  by (induction xs) auto

lemma finding_counts_categorize:
  "categorize_risks (PyStr text) = Inr findings \<Longrightarrow> finding_counts findings = (fh, fm, fl) \<Longrightarrow>
     fh + fm + fl = int (length (filter (\<lambda>s. cat_high s \<or> cat_medium s \<or> substantial s) (sentences_of text)))"
  by (auto simp add: finding_counts_def categorize_risks_filter
        length_three_filters [symmetric] simp del: length_filter_conv_card)

lemma length_sentences_of: "length (sentences_of text) \<le> length (split_dot text)"
  by (simp add: sentences_of_def)

lemma example_text_short: "length (lower example_text) \<le> 10000"
  by (simp add: example_text_def lower_def)

section \<open>Where the two keyword lists of email_service.py agree\<close>

lemma any_in_Nil [simp]: "any_in [] s = False"
  by (simp add: any_in_def)

lemma any_in_Cons [simp]: "any_in (w # ws) s = (py_in w s \<or> any_in ws s)"
  by (simp add: any_in_def)

lemma high_risk_imp_high: "py_in ''high risk'' s \<Longrightarrow> py_in ''high'' s"
proof -
  assume "py_in ''high risk'' s"
  then have "sublist ''high risk'' s"
    by (simp only: py_in_sublist)
  moreover have "sublist ''high'' ''high risk''"
    by (rule prefix_imp_sublist) simp
  ultimately have "sublist ''high'' s"
    by (rule sublist_order.order.trans [rotated])
  then show ?thesis
    by (simp only: py_in_sublist)
qed

lemma clause_high_agree:
  assumes "unambiguous s"
  shows "any_in [''critical'', ''severe'', ''high risk'', ''significant'', ''major''] (lower s) = cat_high s"
  using assms high_risk_imp_high [of "lower s"]
  unfolding unambiguous_def cat_high_def Let_def any_in_Cons any_in_Nil
  by blast

lemma clause_medium_agree:
  assumes "unambiguous s"
  shows "any_in [''moderate'', ''medium'', ''potential'', ''concerning''] (lower s)
           = (\<not> cat_high s \<and> cat_medium s)"
  using assms
  unfolding unambiguous_def cat_high_def cat_medium_def Let_def any_in_Cons any_in_Nil
  by blast

lemma clause_low_agree:
  assumes "unambiguous s"
  shows "(5 < length (split_ws (lower s))
            \<and> \<not> any_in [''critical'', ''severe'', ''high risk'', ''moderate'', ''medium'', ''potential''] (lower s))
           = (\<not> cat_high s \<and> \<not> cat_medium s \<and> substantial s)"
proof -
  have len: "length (split_ws (lower s)) = length (split_ws s)"
    by (simp add: split_ws_lower)
  show ?thesis
    using assms high_risk_imp_high [of "lower s"]
    unfolding unambiguous_def cat_high_def cat_medium_def substantial_def Let_def any_in_Cons any_in_Nil len
    by blast
qed

lemma count_if_map_lower:
  "count_if P (map lower ss) = int (length (filter (\<lambda>s. P (lower s)) ss))"
  by (simp add: count_if_length filter_map o_def)

lemma filter_agree:
  assumes "list_all unambiguous ss" and "\<And>s. unambiguous s \<Longrightarrow> P s = Q s"
  shows "filter P ss = filter Q ss"
  using assms by (intro filter_cong) (auto simp: list_all_iff)

lemma example_text_not_Nil: "example_text \<noteq> []"
  by (simp add: example_text_def)

section \<open>The worked example and the zero score\<close>

lemma example_app: "calculate_risk_score (PyStr example_text) = Inr (40, 1, 1, 1)"
  by code_simp

lemma example_email: "calculate_risk_counts (PyStr example_text) = Inr (83, 1, 1, 0)"
  by code_simp

lemma example_findings:
  "categorize_risks (PyStr example_text) =
     Inr ([''The vendor shall indemnify against all critical liabilities''],
          [''There is a moderate compliance gap noted here today''], [])"
  by code_simp

lemma example_display:
  "display_risks_with_filters (PyStr example_text) =
     ([''The vendor shall indemnify against all critical liabilities''],
      [''There is a moderate compliance gap noted here today''], [])"
  by code_simp

lemma spec_score_zero: "spec_score 0 0 0 = Inr 0"
  by (simp add: spec_score_def)

lemma email_score_zero: "email_score 0 0 0 = Inr 0"
  by (simp add: email_score_def)

section \<open>Keywords before and behind the 10,000th character\<close>

lemma count_from_prefix: "w \<noteq> [] \<Longrightarrow> 1 \<le> count_from w 0 (w @ r)"
proof (cases w)
  case Nil
  assume "w \<noteq> []"
  with Nil show ?thesis by simp
next
  case (Cons a w')
  have "0 \<le> count_from (a # w') (length w') (w' @ r)"
    by (rule count_from_nonneg)
  with Cons show ?thesis by simp
qed

lemma lower_critical: "lower ''critical'' = ''critical''"
  by code_simp

lemma sentences_of_critical_risk: "sentences_of '' critical risk'' = [''critical risk'']"
  by code_simp

lemma critical_risk_high: "cat_high ''critical risk'' \<and> disp_high ''critical risk''"
  by code_simp

lemma sentences_of_append_clause:
  "sentences_of (text @ ''. critical risk'') = sentences_of text @ [''critical risk'']"
proof -
  have "text @ ''. critical risk'' = text @ ''.'' @ '' critical risk''"
    by simp
  then show ?thesis
    by (simp only: sentences_of_append_dot sentences_of_critical_risk)
qed

section \<open>The claims\<close>

text \<open>
  C5. For every input, the score returned by \<open>calculate_risk_score\<close> and, for every
  string, the score returned by \<open>calculate_risk_counts\<close> is an integer between 0 and 100,
  and the high, medium and low counts returned with it are not negative. Neither call
  raises.
\<close>

theorem score_in_range:
  "(\<exists>score high medium low. calculate_risk_score v = Inr (score, high, medium, low)
      \<and> 0 \<le> score \<and> score \<le> 100 \<and> 0 \<le> high \<and> 0 \<le> medium \<and> 0 \<le> low)
   \<and> (\<exists>score high medium low. calculate_risk_counts (PyStr text) = Inr (score, high, medium, low)
      \<and> 0 \<le> score \<and> score \<le> 100 \<and> 0 \<le> high \<and> 0 \<le> medium \<and> 0 \<le> low)"
proof
  show "\<exists>score high medium low. calculate_risk_score v = Inr (score, high, medium, low)
      \<and> 0 \<le> score \<and> score \<le> 100 \<and> 0 \<le> high \<and> 0 \<le> medium \<and> 0 \<le> low"
  proof (cases "\<not> truthy v \<or> \<not> isinstance_str v")
    case True
    then show ?thesis by (simp add: calculate_risk_score_guard)
  next
    case False
    then obtain t where v: "v = PyStr t" and t: "t \<noteq> []"
      by (cases v) auto
    define sample where "sample = take 10000 (lower t)"
    define h where "h = sum_list (map (py_count sample) [''critical'', ''severe'', ''high''])"
    define m where "m = sum_list (map (py_count sample) [''moderate'', ''medium''])"
    define l where "l = max 0 (int (length (split_dot sample)) - h - m)"
    note eq = calculate_risk_score_unfold [OF t sample_def h_def m_def l_def]
    have h0: "0 \<le> h" and m0: "0 \<le> m" and l0: "0 \<le> l"
      by (simp_all add: h_def m_def l_def py_count_nonneg)
    show ?thesis
    proof (cases "h + m + l = 0")
      case True
      with eq v show ?thesis by simp
    next
      case False
      with h0 m0 l0 have pos: "0 < max (h + m + l) 1" by simp
      from score_tail [of "h * 3 + m * 2 + l" "max (h + m + l) 1" 20] h0 m0 l0 pos
      obtain q where q: "truediv (h * 3 + m * 2 + l) (max (h + m + l) 1) = Inr q"
        and b: "0 \<le> min 100 (py_round (fmul q 20))" "min 100 (py_round (fmul q 20)) \<le> 100"
        by auto
      from False q eq v have "calculate_risk_score v = Inr (min 100 (py_round (fmul q 20)), h, m, l)"
        by simp
      with b h0 m0 l0 show ?thesis by blast
    qed
  qed
next
  define ss where "ss = sentences_of (lower text)"
  define h where "h = count_if (any_in [''critical'', ''severe'', ''high risk'', ''significant'', ''major'']) ss"
  define m where "m = count_if (any_in [''moderate'', ''medium'', ''potential'', ''concerning'']) ss"
  define l where "l = count_if (\<lambda>s. 5 < length (split_ws s) \<and>
                        \<not> any_in [''critical'', ''severe'', ''high risk'', ''moderate'', ''medium'', ''potential''] s) ss"
  note eq = calculate_risk_counts_unfold [OF ss_def h_def m_def l_def]
  have h0: "0 \<le> h" and m0: "0 \<le> m" and l0: "0 \<le> l"
    by (simp_all add: h_def m_def l_def count_if_nonneg)
  show "\<exists>score high medium low. calculate_risk_counts (PyStr text) = Inr (score, high, medium, low)
      \<and> 0 \<le> score \<and> score \<le> 100 \<and> 0 \<le> high \<and> 0 \<le> medium \<and> 0 \<le> low"
  proof (cases "h + m + l = 0")
    case True
    with eq show ?thesis by simp
  next
    case False
    with h0 m0 l0 have pos: "0 < (h + m + l) * 3" by simp
    from score_tail [of "h * 3 + m * 2 + l" "(h + m + l) * 3" 100] h0 m0 l0 pos
    obtain q where q: "truediv (h * 3 + m * 2 + l) ((h + m + l) * 3) = Inr q"
      and b: "0 \<le> min 100 (py_round (fmul q 100))" "min 100 (py_round (fmul q 100)) \<le> 100"
      by auto
    from False q eq have "calculate_risk_counts (PyStr text) = Inr (min 100 (py_round (fmul q 100)), h, m, l)"
      by simp
    with b h0 m0 l0 show ?thesis by blast
  qed
qed

theorem score_in_range_witness:
  "(\<exists>score high medium low. calculate_risk_score (PyStr ''a critical flaw.'') = Inr (score, high, medium, low)
      \<and> 0 \<le> score \<and> score \<le> 100 \<and> 0 \<le> high \<and> 0 \<le> medium \<and> 0 \<le> low)
   \<and> (\<exists>score high medium low. calculate_risk_counts (PyStr ''a critical flaw.'') = Inr (score, high, medium, low)
      \<and> 0 \<le> score \<and> score \<le> 100 \<and> 0 \<le> high \<and> 0 \<le> medium \<and> 0 \<le> low)"
  by (rule score_in_range)

text \<open>
  C10. \<open>validate_email\<close> returns True exactly for a non-empty string that contains an
  \<open>@\<close> and a \<open>.\<close> somewhere; nothing else is checked, so \<open>.@\<close> is accepted and
  \<open>user@hostcom\<close> is rejected. The send button reports an invalid address exactly when
  \<open>validate_email\<close> rejects the recipient, and attempts to send exactly when it accepts
  the recipient and some content is selected.
\<close>

theorem validate_email_gate:
  "(validate_email email \<longleftrightarrow> email \<noteq> [] \<and> CHR ''@'' \<in> set email \<and> CHR ''.'' \<in> set email)
   \<and> validate_email ''.@'' \<and> \<not> validate_email ''user@hostcom''
   \<and> (send_button email a b c = InvalidAddress \<longleftrightarrow> \<not> validate_email email)
   \<and> (send_button email a b c = SendAttempted \<longleftrightarrow> validate_email email \<and> (a \<or> b \<or> c))"
  by (simp add: validate_email_def send_button_def)

theorem validate_email_gate_witness:
  "validate_email ''a@b.c'' \<and> send_button ''a@b.c'' True False False = SendAttempted"
  using validate_email_gate [of "''a@b.c''" True False False]
  by simp

text \<open>
  C6, as the code has it. \<open>categorize_risks\<close> and \<open>display_risks_with_filters\<close> test
  their high-risk keywords before their medium ones, and each has its own high-risk
  keywords: \<open>critical, severe, high\<close> in \<open>categorize_risks\<close>, and
  \<open>critical, severe, high risk, significant, major, serious\<close> in
  \<open>display_risks_with_filters\<close>. Every clause that contains a high-risk keyword of the
  classifying function is listed under HIGH, once for each time it occurs in the text,
  and under no other severity, whether or not it also contains a medium keyword. The
  clause \<open>This is a critical and moderate issue\<close> is HIGH, not MEDIUM, in both.
\<close>

theorem high_checked_before_medium:
  assumes "s \<in> set (sentences_of text)"
  shows "(cat_high s \<longrightarrow>
            (\<exists>high_risks medium_risks low_risks.
               categorize_risks (PyStr text) = Inr (high_risks, medium_risks, low_risks)
               \<and> s \<in> set high_risks \<and> s \<notin> set medium_risks \<and> s \<notin> set low_risks
               \<and> count_list high_risks s = count_list (sentences_of text) s))
       \<and> (disp_high s \<longrightarrow>
            (case display_risks_with_filters (PyStr text) of (high_risks, medium_risks, low_risks) \<Rightarrow>
               s \<in> set high_risks \<and> s \<notin> set medium_risks \<and> s \<notin> set low_risks
               \<and> count_list high_risks s = count_list (sentences_of text) s))"
  using assms
  by (simp add: categorize_risks_filter display_risks_with_filters_filter count_list_filter)

theorem high_checked_before_medium_witness:
  "(\<exists>high_risks medium_risks low_risks.
      categorize_risks (PyStr ''This is a critical and moderate issue.'') = Inr (high_risks, medium_risks, low_risks)
      \<and> ''This is a critical and moderate issue'' \<in> set high_risks
      \<and> ''This is a critical and moderate issue'' \<notin> set medium_risks
      \<and> ''This is a critical and moderate issue'' \<notin> set low_risks
      \<and> count_list high_risks ''This is a critical and moderate issue''
          = count_list (sentences_of ''This is a critical and moderate issue.'') ''This is a critical and moderate issue'')
   \<and> (case display_risks_with_filters (PyStr ''This is a critical and moderate issue.'') of (high_risks, medium_risks, low_risks) \<Rightarrow>
      ''This is a critical and moderate issue'' \<in> set high_risks
      \<and> ''This is a critical and moderate issue'' \<notin> set medium_risks
      \<and> ''This is a critical and moderate issue'' \<notin> set low_risks
      \<and> count_list high_risks ''This is a critical and moderate issue''
          = count_list (sentences_of ''This is a critical and moderate issue.'') ''This is a critical and moderate issue'')"
proof -
  have a: "''This is a critical and moderate issue'' \<in> set (sentences_of ''This is a critical and moderate issue.'')"
    by code_simp
  have b: "cat_high ''This is a critical and moderate issue''"
    by code_simp
  have c: "disp_high ''This is a critical and moderate issue''"
    by code_simp
  note t = high_checked_before_medium [OF a]
  from t [THEN conjunct1, THEN mp, OF b] t [THEN conjunct2, THEN mp, OF c] show ?thesis
    by (rule conjI)
qed

text \<open>
  C6 as stated fails for the specification's HIGH keywords. The clause
  \<open>A significant and moderate issue\<close> contains the HIGH keyword \<open>significant\<close> and
  \<open>categorize_risks\<close> lists it under MEDIUM; the clause \<open>A serious breach\<close> contains
  \<open>serious\<close> and \<open>categorize_risks\<close> drops it; the clause
  \<open>A high and moderate exposure\<close> contains \<open>high\<close> and \<open>display_risks_with_filters\<close>
  lists it under MEDIUM.
\<close>

theorem high_checked_before_medium_counterexample:
  "any_in spec_high_keywords (lower ''A significant and moderate issue'')
   \<and> categorize_risks (PyStr ''A significant and moderate issue.'')
       = Inr ([], [''A significant and moderate issue''], [])
   \<and> any_in spec_high_keywords (lower ''A serious breach'')
   \<and> categorize_risks (PyStr ''A serious breach.'') = Inr ([], [], [])
   \<and> any_in spec_high_keywords (lower ''A high and moderate exposure'')
   \<and> display_risks_with_filters (PyStr ''A high and moderate exposure.'')
       = ([], [''A high and moderate exposure''], [])"
  by code_simp

text \<open>
  C7. A clause that matches neither the high nor the medium keywords of the classifying
  function is listed under LOW if and only if it has more than 5 whitespace-delimited
  words; otherwise it appears in none of the three lists.
\<close>

theorem low_needs_more_than_five_words:
  assumes "s \<in> set (sentences_of text)"
  shows "(\<not> cat_high s \<and> \<not> cat_medium s \<longrightarrow>
            (\<exists>high_risks medium_risks low_risks.
               categorize_risks (PyStr text) = Inr (high_risks, medium_risks, low_risks)
               \<and> (s \<in> set low_risks \<longleftrightarrow> 5 < length (split_ws s))
               \<and> s \<notin> set high_risks \<and> s \<notin> set medium_risks
               \<and> count_list low_risks s = (if 5 < length (split_ws s) then count_list (sentences_of text) s else 0)))
       \<and> (\<not> disp_high s \<and> \<not> disp_medium s \<longrightarrow>
            (case display_risks_with_filters (PyStr text) of (high_risks, medium_risks, low_risks) \<Rightarrow>
               (s \<in> set low_risks \<longleftrightarrow> 5 < length (split_ws s))
               \<and> s \<notin> set high_risks \<and> s \<notin> set medium_risks
               \<and> count_list low_risks s = (if 5 < length (split_ws s) then count_list (sentences_of text) s else 0)))"
  using assms
  by (simp add: categorize_risks_filter display_risks_with_filters_filter count_list_filter substantial_def)

theorem low_needs_more_than_five_words_witness:
  "(\<exists>high_risks medium_risks low_risks.
      categorize_risks (PyStr ''One two three four five six. Too short.'') = Inr (high_risks, medium_risks, low_risks)
      \<and> (''Too short'' \<in> set low_risks \<longleftrightarrow> 5 < length (split_ws ''Too short''))
      \<and> ''Too short'' \<notin> set high_risks \<and> ''Too short'' \<notin> set medium_risks
      \<and> count_list low_risks ''Too short''
          = (if 5 < length (split_ws ''Too short'')
             then count_list (sentences_of ''One two three four five six. Too short.'') ''Too short'' else 0))
   \<and> (case display_risks_with_filters (PyStr ''One two three four five six. Too short.'') of (high_risks, medium_risks, low_risks) \<Rightarrow>
      (''One two three four five six'' \<in> set low_risks \<longleftrightarrow> 5 < length (split_ws ''One two three four five six''))
      \<and> ''One two three four five six'' \<notin> set high_risks \<and> ''One two three four five six'' \<notin> set medium_risks
      \<and> count_list low_risks ''One two three four five six''
          = (if 5 < length (split_ws ''One two three four five six'')
             then count_list (sentences_of ''One two three four five six. Too short.'') ''One two three four five six'' else 0))"
proof -
  have a: "''Too short'' \<in> set (sentences_of ''One two three four five six. Too short.'')"
    by code_simp
  have b: "\<not> cat_high ''Too short'' \<and> \<not> cat_medium ''Too short''"
    by code_simp
  have c: "''One two three four five six'' \<in> set (sentences_of ''One two three four five six. Too short.'')"
    by code_simp
  have d: "\<not> disp_high ''One two three four five six'' \<and> \<not> disp_medium ''One two three four five six''"
    by code_simp
  from low_needs_more_than_five_words [OF a, THEN conjunct1, THEN mp, OF b]
       low_needs_more_than_five_words [OF c, THEN conjunct2, THEN mp, OF d]
  show ?thesis
    by (rule conjI)
qed




text \<open>
  C8. For a risk text of more than 10,000 characters, the counts returned by
  \<open>calculate_risk_score\<close> are the keyword counts of the first 10,000 characters of the
  lower-cased text and the number of its pieces between full stops; a keyword put in
  front of the text is counted, and nothing appended behind the text changes the result.
  The per-clause classification (\<open>categorize_risks\<close>, \<open>display_risks_with_filters\<close>)
  goes through the clauses of the whole text: a clause appended behind the text is found
  and classified.
\<close>

theorem truncation_only_in_score:
  assumes "10000 < length text"
  shows "(\<exists>score high medium low.
            calculate_risk_score (PyStr text) = Inr (score, high, medium, low)
          \<and> high = py_count (take 10000 (lower text)) ''critical''
                     + py_count (take 10000 (lower text)) ''severe''
                     + py_count (take 10000 (lower text)) ''high''
          \<and> medium = py_count (take 10000 (lower text)) ''moderate''
                     + py_count (take 10000 (lower text)) ''medium''
          \<and> low = max 0 (int (length (split_dot (take 10000 (lower text)))) - high - medium))
       \<and> (\<exists>score high medium low.
            calculate_risk_score (PyStr (''critical'' @ text)) = Inr (score, high, medium, low)
          \<and> 1 \<le> high)
       \<and> calculate_risk_score (PyStr (text @ more)) = calculate_risk_score (PyStr text)
       \<and> categorize_risks (PyStr text)
            = Inr (filter cat_high (sentences_of text),
                   filter (\<lambda>s. \<not> cat_high s \<and> cat_medium s) (sentences_of text),
                   filter (\<lambda>s. \<not> cat_high s \<and> \<not> cat_medium s \<and> substantial s) (sentences_of text))
       \<and> display_risks_with_filters (PyStr text)
            = (filter disp_high (sentences_of text),
               filter (\<lambda>s. \<not> disp_high s \<and> disp_medium s) (sentences_of text),
               filter (\<lambda>s. \<not> disp_high s \<and> \<not> disp_medium s \<and> substantial s) (sentences_of text))
       \<and> categorize_risks (PyStr (text @ ''. critical risk''))
            = Inr (filter cat_high (sentences_of text) @ [''critical risk''],
                   filter (\<lambda>s. \<not> cat_high s \<and> cat_medium s) (sentences_of text),
                   filter (\<lambda>s. \<not> cat_high s \<and> \<not> cat_medium s \<and> substantial s) (sentences_of text))
       \<and> display_risks_with_filters (PyStr (text @ ''. critical risk''))
            = (filter disp_high (sentences_of text) @ [''critical risk''],
               filter (\<lambda>s. \<not> disp_high s \<and> disp_medium s) (sentences_of text),
               filter (\<lambda>s. \<not> disp_high s \<and> \<not> disp_medium s \<and> substantial s) (sentences_of text))"
proof -
  from assms have ne: "text \<noteq> []" "text @ more \<noteq> []" "''critical'' @ text \<noteq> []"
    by auto
  have counts: "\<exists>score high medium low.
            calculate_risk_score (PyStr t) = Inr (score, high, medium, low)
          \<and> high = py_count (take 10000 (lower t)) ''critical''
                     + py_count (take 10000 (lower t)) ''severe''
                     + py_count (take 10000 (lower t)) ''high''
          \<and> medium = py_count (take 10000 (lower t)) ''moderate''
                     + py_count (take 10000 (lower t)) ''medium''
          \<and> low = max 0 (int (length (split_dot (take 10000 (lower t)))) - high - medium)"
    if t: "t \<noteq> []" for t
  proof -
    define sample where "sample = take 10000 (lower t)"
    define h where "h = sum_list (map (py_count sample) [''critical'', ''severe'', ''high''])"
    define m where "m = sum_list (map (py_count sample) [''moderate'', ''medium''])"
    define l where "l = max 0 (int (length (split_dot sample)) - h - m)"
    define n where "n = int (length (split_dot sample))"
    note eq = calculate_risk_score_unfold [OF t sample_def h_def m_def l_def]
    have n1: "1 \<le> n"
      unfolding n_def by (rule length_split_dot_pos)
    have h0: "0 \<le> h" and m0: "0 \<le> m"
      by (simp_all add: h_def m_def py_count_nonneg)
    have total: "h + m + l = max n (h + m)"
      using l_def unfolding n_def [symmetric] by (rule app_total)
    with n1 have pos: "0 < h + m + l"
      by simp
    then have "truediv (h * 3 + m * 2 + l) (max (h + m + l) 1)
                 = Inr (float_round (of_int (h * 3 + m * 2 + l) / of_int (max (h + m + l) 1)))"
      by (simp add: truediv_def)
    with eq pos obtain score where r: "calculate_risk_score (PyStr t) = Inr (score, h, m, l)"
      by simp
    have hh: "h = py_count sample ''critical'' + py_count sample ''severe'' + py_count sample ''high''"
      by (simp add: h_def)
    have mm: "m = py_count sample ''moderate'' + py_count sample ''medium''"
      by (simp add: m_def)
    from r hh mm l_def show ?thesis
      unfolding sample_def by blast
  qed
  have 1: "\<exists>score high medium low.
            calculate_risk_score (PyStr text) = Inr (score, high, medium, low)
          \<and> high = py_count (take 10000 (lower text)) ''critical''
                     + py_count (take 10000 (lower text)) ''severe''
                     + py_count (take 10000 (lower text)) ''high''
          \<and> medium = py_count (take 10000 (lower text)) ''moderate''
                     + py_count (take 10000 (lower text)) ''medium''
          \<and> low = max 0 (int (length (split_dot (take 10000 (lower text)))) - high - medium)"
    using ne(1) by (rule counts)
  have 2: "\<exists>score high medium low.
            calculate_risk_score (PyStr (''critical'' @ text)) = Inr (score, high, medium, low)
          \<and> 1 \<le> high"
  proof -
    from counts [OF ne(3)] obtain score high medium low where
      r: "calculate_risk_score (PyStr (''critical'' @ text)) = Inr (score, high, medium, low)"
      and h: "high = py_count (take 10000 (lower (''critical'' @ text))) ''critical''
                     + py_count (take 10000 (lower (''critical'' @ text))) ''severe''
                     + py_count (take 10000 (lower (''critical'' @ text))) ''high''"
      by blast
    have "take 10000 (lower (''critical'' @ text)) = ''critical'' @ take 9992 (lower text)"
      by (simp only: lower_append lower_critical) simp
    then have "1 \<le> py_count (take 10000 (lower (''critical'' @ text))) ''critical''"
      unfolding py_count_def by (simp only: count_from_prefix list.distinct not_False_eq_True)
    with h py_count_nonneg [of "take 10000 (lower (''critical'' @ text))" "''severe''"]
      py_count_nonneg [of "take 10000 (lower (''critical'' @ text))" "''high''"]
    have "1 \<le> high"
      by linarith
    with r show ?thesis by blast
  qed
  have len: "10000 \<le> length (lower text)"
    using assms by (simp add: lower_def)
  have 3: "calculate_risk_score (PyStr (text @ more)) = calculate_risk_score (PyStr text)"
    using ne len by (intro calculate_risk_score_sample) (simp_all add: lower_append)
  have 4: "sentences_of (text @ ''. critical risk'') = sentences_of text @ [''critical risk'']"
    by (rule sentences_of_append_clause)
  show ?thesis
    using 1 2 3 critical_risk_high
    by (simp only: categorize_risks_filter display_risks_with_filters_filter 4 filter_append
          filter.simps simp_thms if_True if_False append_Nil2)
qed

theorem truncation_only_in_score_witness:
  "(\<exists>score high medium low.
            calculate_risk_score (PyStr (replicate 10001 CHR ''a'')) = Inr (score, high, medium, low)
          \<and> high = py_count (take 10000 (lower (replicate 10001 CHR ''a''))) ''critical''
                     + py_count (take 10000 (lower (replicate 10001 CHR ''a''))) ''severe''
                     + py_count (take 10000 (lower (replicate 10001 CHR ''a''))) ''high''
          \<and> medium = py_count (take 10000 (lower (replicate 10001 CHR ''a''))) ''moderate''
                     + py_count (take 10000 (lower (replicate 10001 CHR ''a''))) ''medium''
          \<and> low = max 0 (int (length (split_dot (take 10000 (lower (replicate 10001 CHR ''a''))))) - high - medium))
   \<and> (\<exists>score high medium low.
            calculate_risk_score (PyStr (''critical'' @ replicate 10001 CHR ''a'')) = Inr (score, high, medium, low)
          \<and> 1 \<le> high)
   \<and> calculate_risk_score (PyStr (replicate 10001 CHR ''a'' @ '' critical''))
        = calculate_risk_score (PyStr (replicate 10001 CHR ''a''))
   \<and> categorize_risks (PyStr (replicate 10001 CHR ''a'' @ ''. critical risk''))
        = Inr (filter cat_high (sentences_of (replicate 10001 CHR ''a'')) @ [''critical risk''],
               filter (\<lambda>s. \<not> cat_high s \<and> cat_medium s) (sentences_of (replicate 10001 CHR ''a'')),
               filter (\<lambda>s. \<not> cat_high s \<and> \<not> cat_medium s \<and> substantial s) (sentences_of (replicate 10001 CHR ''a'')))"
proof -
  have a: "10000 < length (replicate 10001 CHR ''a'')"
    by simp
  note t = truncation_only_in_score [OF a, of "'' critical''"]
  from t [THEN conjunct1] t [THEN conjunct2, THEN conjunct1]
       t [THEN conjunct2, THEN conjunct2, THEN conjunct1]
       t [THEN conjunct2, THEN conjunct2, THEN conjunct2, THEN conjunct2, THEN conjunct2, THEN conjunct1]
  show ?thesis
    by (intro conjI)
qed

text \<open>
  C4, as the code has it. The counts returned by \<open>calculate_risk_score\<close> add up to the
  number of pieces between the full stops of the first 10,000 lower-cased characters, or
  to the number of high and medium keyword occurrences when that is larger (and to 0 for
  the empty text). The findings of \<open>categorize_risks\<close> are the non-empty trimmed clauses
  that have a high or medium keyword or more than 5 words. When the lower-cased text has
  at most 10,000 characters there are at most as many findings as the counts add up to.
\<close>

theorem counts_and_findings:
  "\<exists>score high medium low high_risks medium_risks low_risks.
      calculate_risk_score (PyStr text) = Inr (score, high, medium, low)
    \<and> high + medium + low =
        (if text = [] then 0 else max (int (length (split_dot (take 10000 (lower text))))) (high + medium))
    \<and> categorize_risks (PyStr text) = Inr (high_risks, medium_risks, low_risks)
    \<and> int (length high_risks) + int (length medium_risks) + int (length low_risks)
        = int (length (filter (\<lambda>s. cat_high s \<or> cat_medium s \<or> substantial s) (sentences_of text)))
    \<and> (length (lower text) \<le> 10000 \<longrightarrow>
         int (length high_risks) + int (length medium_risks) + int (length low_risks) \<le> high + medium + low)"
proof -
  obtain hs ms ls where c: "categorize_risks (PyStr text) = Inr (hs, ms, ls)"
    by (simp add: categorize_risks_filter)
  have fc: "finding_counts (hs, ms, ls) = (int (length hs), int (length ms), int (length ls))"
    by (simp add: finding_counts_def)
  note cnt = finding_counts_categorize [OF c fc]
  show ?thesis
  proof (cases "text = []")
    case True
    with c have "hs = []" "ms = []" "ls = []"
      by (simp_all add: categorize_risks_Nil)
    with True c cnt show ?thesis
      by (simp add: calculate_risk_score_def)
  next
    case False
    define sample where "sample = take 10000 (lower text)"
    define h where "h = sum_list (map (py_count sample) [''critical'', ''severe'', ''high''])"
    define m where "m = sum_list (map (py_count sample) [''moderate'', ''medium''])"
    define l where "l = max 0 (int (length (split_dot sample)) - h - m)"
    define n where "n = int (length (split_dot sample))"
    note eq = calculate_risk_score_unfold [OF False sample_def h_def m_def l_def]
    have n1: "1 \<le> n"
      unfolding n_def by (rule length_split_dot_pos)
    have total: "h + m + l = max n (h + m)"
      using l_def unfolding n_def [symmetric] by (rule app_total)
    with n1 have pos: "0 < h + m + l"
      by simp
    then have "truediv (h * 3 + m * 2 + l) (max (h + m + l) 1)
                 = Inr (float_round (of_int (h * 3 + m * 2 + l) / of_int (max (h + m + l) 1)))"
      by (simp add: truediv_def)
    with eq pos obtain score where r: "calculate_risk_score (PyStr text) = Inr (score, h, m, l)"
      by simp
    have le: "int (length hs) + int (length ms) + int (length ls) \<le> h + m + l"
      if short: "length (lower text) \<le> 10000"
    proof -
      have "int (length hs) + int (length ms) + int (length ls) \<le> int (length (sentences_of text))"
        unfolding cnt by simp
      also have "\<dots> \<le> int (length (split_dot text))"
        using length_sentences_of [of "text"] by simp
      also have "\<dots> = int (length (split_dot (lower text)))"
        by (simp add: split_dot_lower)
      also have "\<dots> = n"
        unfolding n_def sample_def using short by simp
      also have "\<dots> \<le> h + m + l"
        unfolding total by simp
      finally show ?thesis .
    qed
    have "h + m + l = (if text = [] then 0 else max (int (length (split_dot (take 10000 (lower text))))) (h + m))"
      using False total by (simp only: n_def sample_def if_False)
    with r c cnt le show ?thesis
      by blast
  qed
qed

theorem counts_and_findings_witness:
  "\<exists>score high medium low high_risks medium_risks low_risks.
      calculate_risk_score (PyStr example_text) = Inr (score, high, medium, low)
    \<and> categorize_risks (PyStr example_text) = Inr (high_risks, medium_risks, low_risks)
    \<and> int (length high_risks) + int (length medium_risks) + int (length low_risks) \<le> high + medium + low"
  using counts_and_findings [of example_text] example_text_short
  by blast

text \<open>
  C4 as stated fails: on the text \<open>a\<close> the counts of \<open>calculate_risk_score\<close> add up
  to 1, and \<open>categorize_risks\<close> produces no finding.
\<close>

theorem counts_and_findings_counterexample:
  "calculate_risk_score (PyStr ''a'') = Inr (20, 0, 0, 1) \<and> categorize_risks (PyStr ''a'') = Inr ([], [], [])"
  by code_simp

text \<open>
  C1, as the code has it. \<open>prepare_email_content\<close> takes the counts of its score section
  from \<open>calculate_risk_counts\<close> and the findings from \<open>categorize_risks\<close>, each with its
  own keywords. For a non-empty risk text in which no clause contains \<open>high\<close>,
  \<open>significant\<close>, \<open>major\<close>, \<open>potential\<close> or \<open>concerning\<close>, and no clause contains both
  one of \<open>critical\<close>, \<open>severe\<close> and one of \<open>moderate\<close>, \<open>medium\<close>, the high, medium and
  low counts printed in the score section are the numbers of findings under the three
  headings.
\<close>

theorem score_and_findings_agree:
  assumes "text \<noteq> []" and "list_all unambiguous (sentences_of text)"
  shows "\<exists>score high medium low findings.
           prepare_email_content True True (PyStr text) = Inr (Printed (score, high, medium, low), Printed findings)
         \<and> calculate_risk_counts (PyStr text) = Inr (score, high, medium, low)
         \<and> categorize_risks (PyStr text) = Inr findings
         \<and> finding_counts findings = (high, medium, low)"
proof -
  define ss where "ss = sentences_of (lower text)"
  define h where "h = count_if (any_in [''critical'', ''severe'', ''high risk'', ''significant'', ''major'']) ss"
  define m where "m = count_if (any_in [''moderate'', ''medium'', ''potential'', ''concerning'']) ss"
  define l where "l = count_if (\<lambda>s. 5 < length (split_ws s) \<and>
                        \<not> any_in [''critical'', ''severe'', ''high risk'', ''moderate'', ''medium'', ''potential''] s) ss"
  note eq = calculate_risk_counts_unfold [OF ss_def h_def m_def l_def]
  have ss: "ss = map lower (sentences_of text)"
    by (simp only: ss_def sentences_of_lower)
  have h: "h = int (length (filter cat_high (sentences_of text)))"
    unfolding h_def ss count_if_map_lower
    using filter_agree [OF assms(2) clause_high_agree] by simp
  have m: "m = int (length (filter (\<lambda>s. \<not> cat_high s \<and> cat_medium s) (sentences_of text)))"
    unfolding m_def ss count_if_map_lower
    using filter_agree [OF assms(2) clause_medium_agree] by simp
  have l: "l = int (length (filter (\<lambda>s. \<not> cat_high s \<and> \<not> cat_medium s \<and> substantial s) (sentences_of text)))"
    unfolding l_def ss count_if_map_lower
    using filter_agree [OF assms(2) clause_low_agree] by simp
  obtain findings where c: "categorize_risks (PyStr text) = Inr findings"
    and fs: "findings = (filter cat_high (sentences_of text),
                         filter (\<lambda>s. \<not> cat_high s \<and> cat_medium s) (sentences_of text),
                         filter (\<lambda>s. \<not> cat_high s \<and> \<not> cat_medium s \<and> substantial s) (sentences_of text))"
    by (simp add: categorize_risks_filter)
  have fc: "finding_counts findings = (h, m, l)"
    by (simp only: finding_counts_def fs prod.case h m l)
  have h0: "0 \<le> h" and m0: "0 \<le> m" and l0: "0 \<le> l"
    by (simp_all only: h m l of_nat_0_le_iff)
  obtain score where r: "calculate_risk_counts (PyStr text) = Inr (score, h, m, l)"
  proof (cases "h + m + l = 0")
    case True
    with h0 m0 l0 have "h = 0" "m = 0" "l = 0" by linarith+
    with eq that show ?thesis by simp
  next
    case False
    then have "truediv (h * 3 + m * 2 + l) ((h + m + l) * 3)
                 = Inr (float_round (of_int (h * 3 + m * 2 + l) / of_int ((h + m + l) * 3)))"
      by (simp add: truediv_def)
    with eq False that show ?thesis by simp
  qed
  have "prepare_email_content True True (PyStr text)
          = Inr (Printed (score, h, m, l), Printed findings)"
    using assms(1) r c by (simp add: prepare_email_content_def)
  with r c fc show ?thesis
    by blast
qed

theorem score_and_findings_agree_witness:
  "\<exists>score high medium low findings.
           prepare_email_content True True (PyStr example_text) = Inr (Printed (score, high, medium, low), Printed findings)
         \<and> calculate_risk_counts (PyStr example_text) = Inr (score, high, medium, low)
         \<and> categorize_risks (PyStr example_text) = Inr findings
         \<and> finding_counts findings = (high, medium, low)"
proof -
  have a: "list_all unambiguous (sentences_of example_text)"
    by code_simp
  from score_and_findings_agree [OF example_text_not_Nil a] show ?thesis .
qed

text \<open>
  C1 as stated fails: for the risk text \<open>high exposure\<close> the score section prints the
  counts 0, 0, 0 and the findings list one HIGH finding.
\<close>

theorem score_and_findings_agree_counterexample:
  "prepare_email_content True True (PyStr ''high exposure'')
     = Inr (Printed (0, 0, 0, 0), Printed ([''high exposure''], [], []))
   \<and> finding_counts ([''high exposure''], [], []) = (1, 0, 0)"
  by code_simp

text \<open>
  C2, as the code has it. On the specification's example text the per-clause
  classification yields 1 HIGH, 1 MEDIUM and 0 LOW findings; \<open>calculate_risk_score\<close>
  returns the score 40 with the counts 1, 1, 1, and \<open>calculate_risk_counts\<close> returns the
  score 83 with the counts 1, 1, 0.
\<close>

theorem example_scores:
  "categorize_risks (PyStr example_text) =
     Inr ([''The vendor shall indemnify against all critical liabilities''],
          [''There is a moderate compliance gap noted here today''], [])
   \<and> display_risks_with_filters (PyStr example_text) =
     ([''The vendor shall indemnify against all critical liabilities''],
      [''There is a moderate compliance gap noted here today''], [])
   \<and> finding_counts ([''The vendor shall indemnify against all critical liabilities''],
      [''There is a moderate compliance gap noted here today''], []) = (1, 1, 0)
   \<and> calculate_risk_score (PyStr example_text) = Inr (40, 1, 1, 1)
   \<and> calculate_risk_counts (PyStr example_text) = Inr (83, 1, 1, 0)"
  by (simp add: example_app example_email example_findings example_display finding_counts_def)

theorem example_scores_witness:
  "truthy (PyStr example_text) \<and> isinstance_str (PyStr example_text)
   \<and> calculate_risk_score (PyStr example_text) = Inr (40, 1, 1, 1)
   \<and> calculate_risk_counts (PyStr example_text) = Inr (83, 1, 1, 0)
   \<and> finding_counts ([''The vendor shall indemnify against all critical liabilities''],
      [''There is a moderate compliance gap noted here today''], []) = (1, 1, 0)"
  using example_scores example_text_not_Nil
  by simp

text \<open>
  C2 as stated fails: neither scoring function returns the score 50 with the counts
  1, 1, 0 on the example text.
\<close>

theorem example_scores_counterexample:
  "calculate_risk_score (PyStr example_text) \<noteq> Inr (50, 1, 1, 0)
   \<and> calculate_risk_counts (PyStr example_text) \<noteq> Inr (50, 1, 1, 0)"
  by (simp add: example_app example_email)

text \<open>
  C3, as the code has it. The score returned by \<open>calculate_risk_score\<close> is the
  specification's formula \<open>min(100, round((high*3 + medium*2 + low*1) / total * 20))\<close> of
  the counts returned with it, and 0 when they add up to 0. The score returned by
  \<open>calculate_risk_counts\<close> is \<open>min(100, round((high*3 + medium*2 + low) / (total*3) * 100))\<close>
  of its counts, and 0 when they add up to 0.
\<close>

theorem score_formula:
  "(\<exists>score high medium low. calculate_risk_score v = Inr (score, high, medium, low)
      \<and> spec_score high medium low = Inr score)
   \<and> (\<exists>score high medium low. calculate_risk_counts (PyStr text) = Inr (score, high, medium, low)
      \<and> email_score high medium low = Inr score)"
proof
  show "\<exists>score high medium low. calculate_risk_score v = Inr (score, high, medium, low)
      \<and> spec_score high medium low = Inr score"
  proof (cases "\<not> truthy v \<or> \<not> isinstance_str v")
    case True
    then show ?thesis
      by (simp add: calculate_risk_score_guard spec_score_zero)
  next
    case False
    then obtain t where v: "v = PyStr t" and t: "t \<noteq> []"
      by (cases v) auto
    define sample where "sample = take 10000 (lower t)"
    define h where "h = sum_list (map (py_count sample) [''critical'', ''severe'', ''high''])"
    define m where "m = sum_list (map (py_count sample) [''moderate'', ''medium''])"
    define l where "l = max 0 (int (length (split_dot sample)) - h - m)"
    note eq = calculate_risk_score_unfold [OF t sample_def h_def m_def l_def]
    have h0: "0 \<le> h" and m0: "0 \<le> m" and l0: "0 \<le> l"
      by (simp_all add: h_def m_def l_def py_count_nonneg)
    show ?thesis
    proof (cases "h + m + l = 0")
      case True
      with h0 m0 l0 have "h = 0" "m = 0" "l = 0" by linarith+
      with eq v show ?thesis by (simp add: spec_score_zero)
    next
      case False
      with h0 m0 l0 have mx: "max (h + m + l) 1 = h + m + l" by simp
      obtain q where q: "truediv (h * 3 + m * 2 + l) (h + m + l) = Inr q"
        using False by (simp add: truediv_def)
      from False q eq v mx have "calculate_risk_score v = Inr (min 100 (py_round (fmul q 20)), h, m, l)"
        by simp
      moreover from False q have "spec_score h m l = Inr (min 100 (py_round (fmul q 20)))"
        by (simp add: spec_score_def)
      ultimately show ?thesis by blast
    qed
  qed
next
  define ss where "ss = sentences_of (lower text)"
  define h where "h = count_if (any_in [''critical'', ''severe'', ''high risk'', ''significant'', ''major'']) ss"
  define m where "m = count_if (any_in [''moderate'', ''medium'', ''potential'', ''concerning'']) ss"
  define l where "l = count_if (\<lambda>s. 5 < length (split_ws s) \<and>
                        \<not> any_in [''critical'', ''severe'', ''high risk'', ''moderate'', ''medium'', ''potential''] s) ss"
  note eq = calculate_risk_counts_unfold [OF ss_def h_def m_def l_def]
  show "\<exists>score high medium low. calculate_risk_counts (PyStr text) = Inr (score, high, medium, low)
      \<and> email_score high medium low = Inr score"
  proof (cases "h + m + l = 0")
    case True
    with eq show ?thesis by (simp add: email_score_zero)
  next
    case False
    obtain q where q: "truediv (h * 3 + m * 2 + l) ((h + m + l) * 3) = Inr q"
      using False by (simp add: truediv_def)
    from False q eq have "calculate_risk_counts (PyStr text) = Inr (min 100 (py_round (fmul q 100)), h, m, l)"
      by simp
    moreover from False q have "email_score h m l = Inr (min 100 (py_round (fmul q 100)))"
      by (simp add: email_score_def)
    ultimately show ?thesis by blast
  qed
qed

theorem score_formula_witness:
  "(\<exists>score high medium low. calculate_risk_score (PyStr ''critical.'') = Inr (score, high, medium, low)
      \<and> spec_score high medium low = Inr score)
   \<and> (\<exists>score high medium low. calculate_risk_counts (PyStr ''critical.'') = Inr (score, high, medium, low)
      \<and> email_score high medium low = Inr score)"
  by (rule score_formula)

text \<open>
  C3 as stated fails at \<open>calculate_risk_counts\<close>: on \<open>critical.\<close> it returns the counts
  1, 0, 0 with the score 100, where the specification's formula gives 60.
\<close>

theorem score_formula_counterexample:
  "calculate_risk_counts (PyStr ''critical.'') = Inr (100, 1, 0, 0) \<and> spec_score 1 0 0 = Inr 60"
  by code_simp

end
